theory Spec2Isabelle
  imports Main "HOL-Library.AList"
begin

unbundle bit_operations_syntax

section \<open>Python values shared by the models\<close>

text \<open>
  The exceptions the modelled functions raise. A raise is the left summand of the
  result; the payload of the exception (its message) is left out.
\<close>

datatype error =
    AssertionError
  | TypeError
  | AttributeError
  | ValueError
  | IndexError
  | KeyError
  | SignatureError

section \<open>Message specifications (structures/macroplanning.py)\<close>

text \<open>
  \<open>int(key)\<close> of the source: an integer is returned as it is; a string is parsed
  (surrounding ASCII whitespace, an optional sign, decimal digits with single
  underscores between them) and anything else in it is a \<open>ValueError\<close>.
\<close>

datatype key = IntKey int | StrKey string

definition is_space :: "char \<Rightarrow> bool" where
  "is_space c = (c \<in> set [CHR '' '', CHR 0x09, CHR 0x0A, CHR 0x0B, CHR 0x0C, CHR 0x0D])"

definition is_digit :: "char \<Rightarrow> bool" where
  "is_digit c = (48 \<le> (of_char c :: nat) \<and> (of_char c :: nat) \<le> 57)"

definition digit_val :: "char \<Rightarrow> int" where
  "digit_val c = int (of_char c) - 48"

definition strip :: "string \<Rightarrow> string" where
  "strip s = rev (dropWhile is_space (rev (dropWhile is_space s)))"

fun digits_value :: "int \<Rightarrow> bool \<Rightarrow> string \<Rightarrow> int option" where
  "digits_value acc after_digit [] = (if after_digit then Some acc else None)"
| "digits_value acc after_digit (c # cs) =
     (if is_digit c then digits_value (10 * acc + digit_val c) True cs
      else if c = CHR ''_'' \<and> after_digit then digits_value acc False cs
      else None)"

definition int_of_str :: "string \<Rightarrow> int option" where
  "int_of_str s =
     (case strip s of
        [] \<Rightarrow> None
      | c # cs \<Rightarrow>
          if c = CHR ''-'' then map_option uminus (digits_value 0 False cs)
          else if c = CHR ''+'' then digits_value 0 False cs
          else digits_value 0 False (c # cs))"

text \<open>
  An attribute of a message object as \<open>MsgSpec.value_for\<close> meets it through
  \<open>hasattr\<close>/\<open>getattr\<close>: either not callable, or callable with the outcome
  of calling it without arguments.
\<close>

datatype 'a attr = NotCallable | Callable "error + 'a"

record ('p, 'a) PredicateMsg =
  name :: string
  predicate :: 'p
  args :: "'a list"
  msg_features :: "(string \<times> string) list"
  attributes :: "string \<Rightarrow> 'a attr option"

definition MsgSpec_value_for :: "('p, 'a) PredicateMsg \<Rightarrow> string \<Rightarrow> error + 'a" where
  "MsgSpec_value_for self attr =
     (case attributes self attr of
        None \<Rightarrow> Inl ValueError
      | Some NotCallable \<Rightarrow> Inl ValueError
      | Some (Callable r) \<Rightarrow> r)"

text \<open>
  \<open>PredicateMsg.value_for\<close>. The method assigns to no field of \<open>self\<close>; the
  message is returned beside the outcome so that this is part of the model.
  \<open>self.args[idx]\<close> is Python indexing: a negative index counts from the end and
  raises \<open>IndexError\<close> below \<open>-len\<close>.
\<close>

definition value_for ::
  "('p, 'a) PredicateMsg \<Rightarrow> key \<Rightarrow> (error + 'a) \<times> ('p, 'a) PredicateMsg" where
  "value_for self k =
     (case (case k of IntKey i \<Rightarrow> Some i | StrKey s \<Rightarrow> int_of_str s) of
        None \<Rightarrow> (MsgSpec_value_for self (case k of StrKey s \<Rightarrow> s | IntKey i \<Rightarrow> []), self)
      | Some idx \<Rightarrow>
          if idx \<ge> int (length (args self)) then (Inl SignatureError, self)
          else if 0 \<le> idx then (Inr (args self ! nat idx), self)
          else if 0 \<le> int (length (args self)) + idx
            then (Inr (args self ! nat (int (length (args self)) + idx)), self)
          else (Inl IndexError, self))"

section \<open>The element hierarchy (structures.py)\<close>

text \<open>
  Every element object carries the attributes set by \<open>Element.__init__\<close>:
  \<open>id\<close>, \<open>_type\<close>, \<open>features\<close> and the hash cache \<open>hash\<close>
  (\<open>-1\<close> while nothing is cached). The record adds \<open>oid\<close>, the identity of
  the object (what \<open>id(obj)\<close> and \<open>is\<close> observe). The attribute
  \<open>parent\<close>, a back-reference that no equality, hash, traversal or replacement
  reads, is not part of the model. \<open>_type\<close> ranges over the keys of
  \<open>VisitorNames\<close>: the constructor rejects any other value.
\<close>

datatype pyatom = PNone | PInt int | PStr string

datatype etype =
    ELEMENT | STRING | WORD | VAR | CLAUSE | COORDINATION | SUBORDINATION
  | PHRASE | NOUN_PHRASE | VERB_PHRASE | PREPOSITIONAL_PHRASE | ADJECTIVE_PHRASE | ADVERB_PHRASE

record base =
  oid :: nat
  ident :: pyatom
  etype :: etype
  features :: "(string \<times> string) list"
  hash :: int

text \<open>The Python class of an object of the phrase family.\<close>

datatype pclass =
    Phrase_c | NounPhrase_c | VerbPhrase_c | PrepositionalPhrase_c | AdverbPhrase_c
  | AdjectivePhrase_c

text \<open>
  A slot of an element holds an element object or \<open>None\<close>. The constructors list
  the attributes in the order of the source:
  \<^item> \<open>String base value\<close>;
  \<^item> \<open>Word base word pos base do_inflection\<close>;
  \<^item> \<open>Var base value\<close> (its \<open>id\<close> is the \<open>ident\<close> of the base);
  \<^item> \<open>Coordination base coords conj pre_modifiers complements post_modifiers\<close>;
  \<^item> \<open>Phrase class base spec front_modifiers pre_modifiers head complements
    post_modifiers\<close>, where only a \<open>NounPhrase\<close> has the attribute \<open>spec\<close>
    (for the other classes the slot is never read);
  \<^item> \<open>Clause base front_modifiers pre_modifiers subj vp complements post_modifiers\<close>.
\<close>

datatype elem =
    NoneV
  | Element base
  | String base string
  | Word base string string string bool
  | Var base elem
  | Coordination base "elem list" string "elem list" "elem list" "elem list"
  | Phrase pclass base elem "elem list" "elem list" elem "elem list" "elem list"
  | Clause base "elem list" "elem list" elem elem "elem list" "elem list"

fun base_of :: "elem \<Rightarrow> base option" where
  "base_of NoneV = None"
| "base_of (Element b) = Some b"
| "base_of (String b v) = Some b"
| "base_of (Word b w p bs i) = Some b"
| "base_of (Var b v) = Some b"
| "base_of (Coordination b cs cj pr co po) = Some b"
| "base_of (Phrase c b sp fr pr h co po) = Some b"
| "base_of (Clause b fr pr su vp co po) = Some b"

text \<open>\<open>x is y\<close>: the same object. \<open>None\<close> is a single object.\<close>

definition py_is :: "elem \<Rightarrow> elem \<Rightarrow> bool" where
  "py_is x y = (map_option oid (base_of x) = map_option oid (base_of y))"

text \<open>Truth value of an object (\<open>__bool__\<close>).\<close>

fun py_bool :: "elem \<Rightarrow> bool" where
  "py_bool NoneV = False"
| "py_bool (Element b) = False"
| "py_bool (String b v) = (v \<noteq> [])"
| "py_bool _ = True"

subsection \<open>Equality (\<open>__eq__\<close>)\<close>

text \<open>Equality of two feature dictionaries: the same keys with the same values.\<close>

definition dict_eq :: "(string \<times> string) list \<Rightarrow> (string \<times> string) list \<Rightarrow> bool" where
  "dict_eq d e = list_all (\<lambda>k. map_of d k = map_of e k) (map fst d @ map fst e)"

text \<open>\<open>Element.__eq__\<close> on two element objects.\<close>

definition Element_eq :: "base \<Rightarrow> base \<Rightarrow> bool" where
  "Element_eq self other =
     (etype self = etype other \<and> ident self = ident other
      \<and> dict_eq (features self) (features other))"

text \<open>
  \<open>x == y\<close>. Python calls the \<open>__eq__\<close> of the class of \<open>x\<close>, or first
  that of \<open>y\<close> when the class of \<open>y\<close> is a proper subclass that overrides it;
  every \<open>__eq__\<close> of the hierarchy answers \<open>False\<close> for an object that is
  not of its own class, so objects of different classes are unequal, except inside the
  phrase family, where \<open>VerbPhrase\<close> and its siblings inherit \<open>Phrase.__eq__\<close>.
  \<open>list_eq\<close> is \<open>==\<close> on lists: equal lengths, and the items pairwise
  identical or equal.
\<close>

primrec elem_eq :: "elem \<Rightarrow> elem \<Rightarrow> bool"
  and list_eq :: "elem list \<Rightarrow> elem list \<Rightarrow> bool" where
  "elem_eq NoneV other = (other = NoneV)"
| "elem_eq (Element a) other = (case other of Element b \<Rightarrow> Element_eq a b | _ \<Rightarrow> False)"
| "elem_eq (String a v) other =
     (case other of String b v' \<Rightarrow> v = v' \<and> Element_eq a b | _ \<Rightarrow> False)"
| "elem_eq (Word a w p bs i) other =
     (case other of
        Word b w' p' bs' i' \<Rightarrow> w = w' \<and> p = p' \<and> Element_eq a b
      | _ \<Rightarrow> False)"
| "elem_eq (Var a v) other =
     (case other of
        Var b v' \<Rightarrow> ident a = ident b \<and> elem_eq v v' \<and> Element_eq a b
      | _ \<Rightarrow> False)"
| "elem_eq (Coordination a cs cj pr co po) other =
     (case other of
        Coordination b cs' cj' pr' co' po' \<Rightarrow> list_eq cs cs' \<and> cj = cj' \<and> Element_eq a b
      | _ \<Rightarrow> False)"
| "elem_eq (Phrase c a sp fr pr h co po) other =
     (case other of
        Phrase c' b sp' fr' pr' h' co' po' \<Rightarrow>
          (if c = NounPhrase_c then c' = NounPhrase_c \<and> elem_eq sp sp' \<and> elem_eq h h'
           else \<not> (c = Phrase_c \<and> c' = NounPhrase_c))
          \<and> etype a = etype b
          \<and> list_eq fr fr' \<and> list_eq pr pr' \<and> elem_eq h h'
          \<and> list_eq co co' \<and> list_eq po po' \<and> Element_eq a b
      | _ \<Rightarrow> False)"
| "elem_eq (Clause a fr pr su vp co po) other =
     (case other of
        Clause b fr' pr' su' vp' co' po' \<Rightarrow>
          list_eq pr pr' \<and> elem_eq su su' \<and> elem_eq vp vp'
          \<and> list_eq co co' \<and> list_eq po po' \<and> Element_eq a b
      | _ \<Rightarrow> False)"
| "list_eq [] ys = (ys = [])"
| "list_eq (x # xs) ys =
     (case ys of [] \<Rightarrow> False | y # ys' \<Rightarrow> (py_is x y \<or> elem_eq x y) \<and> list_eq xs ys')"

subsection \<open>Traversal (\<open>constituents\<close>)\<close>

text \<open>
  A generator is modelled by what it yields and, when it stops by raising, the
  exception: a consumer that stops early never sees the exception.
  \<open>gen_then\<close> runs one generator after another, \<open>gen_concat\<close> a sequence of
  them, and \<open>yield_from_each f g\<close> is the loop
  \<open>for x in g: yield from f(x)\<close>.
\<close>

type_synonym gen = "elem list \<times> error option"

definition gen_then :: "gen \<Rightarrow> gen \<Rightarrow> gen" where
  "gen_then g h = (case snd g of Some e \<Rightarrow> g | None \<Rightarrow> (fst g @ fst h, snd h))"

definition gen_concat :: "gen list \<Rightarrow> gen" where
  "gen_concat gs = foldr gen_then gs ([], None)"



definition yield_from_each :: "(elem \<Rightarrow> gen) \<Rightarrow> gen \<Rightarrow> gen" where
  "yield_from_each f g = gen_then (gen_concat (map f (fst g))) ([], snd g)"

lemma yield_from_each_cong [fundef_cong]:
  assumes "g = g'" and "\<And>x. x \<in> set (fst g') \<Longrightarrow> f x = f' x"
  shows "yield_from_each f g = yield_from_each f' g'"
  using assms by (simp add: yield_from_each_def cong: map_cong)

function (sequential) constituents :: "elem \<Rightarrow> gen" where
  "constituents NoneV = ([], Some AttributeError)"
| "constituents (Element b) = ([], None)"
| "constituents (String b v) = ([String b v], None)"
| "constituents (Word b w p bs i) = ([Word b w p bs i], None)"
| "constituents (Var b v) = ([Var b v], None)"
| "constituents (Coordination b cs cj pr co po) =
     gen_then ([Coordination b cs cj pr co po], None)
       (gen_concat (map (\<lambda>c. if c = NoneV then ([NoneV], None) else constituents c) cs))"
| "constituents (Phrase c b sp fr pr h co po) =
     gen_concat
       [([Phrase c b sp fr pr h co po], None),
        (if c = NounPhrase_c \<and> sp \<noteq> NoneV
         then yield_from_each constituents (constituents sp) else ([], None)),
        gen_concat (map (\<lambda>m. yield_from_each constituents (constituents m)) fr),
        gen_concat (map (\<lambda>m. yield_from_each constituents (constituents m)) pr),
        (if h \<noteq> NoneV then yield_from_each constituents (constituents h) else ([], None)),
        gen_concat (map (\<lambda>m. yield_from_each constituents (constituents m)) co),
        gen_concat (map (\<lambda>m. yield_from_each constituents (constituents m)) po)]"
| "constituents (Clause b fr pr su vp co po) =
     gen_concat
       [([Clause b fr pr su vp co po], None),
        gen_concat (map (\<lambda>m. yield_from_each constituents (constituents m)) pr),
        constituents su,
        constituents vp,
        gen_concat (map (\<lambda>m. yield_from_each constituents (constituents m)) co),
        gen_concat (map (\<lambda>m. yield_from_each constituents (constituents m)) po)]"
  by pat_completeness auto


lemma in_gen_then:
  "x \<in> set (fst (gen_then g h)) \<Longrightarrow> x \<in> set (fst g) \<or> x \<in> set (fst h)"
  by (auto simp: gen_then_def split: option.splits)

lemma in_gen_concat:
  "x \<in> set (fst (gen_concat gs)) \<Longrightarrow> \<exists>g \<in> set gs. x \<in> set (fst g)"
proof (induction gs)
  case Nil
  then show ?case by (simp add: gen_concat_def)
next
  case (Cons g gs)
  have "gen_concat (g # gs) = gen_then g (gen_concat gs)"
    by (simp add: gen_concat_def)
  with Cons.prems have "x \<in> set (fst g) \<or> x \<in> set (fst (gen_concat gs))"
    by (auto dest: in_gen_then)
  with Cons.IH show ?case by auto
qed

lemma in_gen_concat_map:
  "x \<in> set (fst (gen_concat (map f es))) \<Longrightarrow> \<exists>e \<in> set es. x \<in> set (fst (f e))"
proof (induction es)
  case Nil
  then show ?case by (simp add: gen_concat_def)
next
  case (Cons e es)
  have "gen_concat (map f (e # es)) = gen_then (f e) (gen_concat (map f es))"
    by (simp add: gen_concat_def)
  with Cons.prems have "x \<in> set (fst (f e)) \<or> x \<in> set (fst (gen_concat (map f es)))"
    by (auto dest: in_gen_then)
  with Cons.IH show ?case by auto
qed

lemma in_yield_from_each:
  assumes "x \<in> set (fst (yield_from_each f g))"
  shows "\<exists>y \<in> set (fst g). x \<in> set (fst (f y))"
proof -
  from assms have "x \<in> set (fst (gen_concat (map f (fst g))))"
    unfolding yield_from_each_def by (auto dest: in_gen_then)
  then obtain h where "h \<in> set (map f (fst g))" and "x \<in> set (fst h)"
    by (auto dest: in_gen_concat)
  then show ?thesis by auto
qed

lemma in_yield_mods:
  assumes "x \<in> set (fst (gen_concat (map (\<lambda>m. yield_from_each f (f m)) es)))"
  shows "\<exists>e \<in> set es. \<exists>y \<in> set (fst (f e)). x \<in> set (fst (f y))"
proof -
  from in_gen_concat[OF assms]
  obtain e where "e \<in> set es" and "x \<in> set (fst (yield_from_each f (f e)))" by auto
  with in_yield_from_each show ?thesis by blast
qed

lemma size_list_mem: "e \<in> set es \<Longrightarrow> size e \<le> size_list size es"
  by (induction es) auto

lemma constituents_size:
  "constituents_dom e \<Longrightarrow> x \<in> set (fst (constituents e)) \<Longrightarrow> size x \<le> size e"
proof (induction e arbitrary: x rule: constituents.pinduct)
  case 1
  then show ?case by (simp add: constituents.psimps)
next
  case (2 b)
  then show ?case by (simp add: constituents.psimps)
next
  case (3 b v)
  then show ?case by (simp add: constituents.psimps)
next
  case (4 b w p bs i)
  then show ?case by (simp add: constituents.psimps)
next
  case (5 b v)
  then show ?case by (simp add: constituents.psimps)
next
  case (6 b cs cj pr co po)
  from "6.prems" "6.hyps"
  have "x \<in> set (fst (gen_then ([Coordination b cs cj pr co po], None)
       (gen_concat (map (\<lambda>c. if c = NoneV then ([NoneV], None) else constituents c) cs))))"
    by (simp add: constituents.psimps)
  then have "x \<in> set [Coordination b cs cj pr co po] \<or>
      x \<in> set (fst (gen_concat
        (map (\<lambda>c. if c = NoneV then ([NoneV], None) else constituents c) cs)))"
    using in_gen_then[of x "([Coordination b cs cj pr co po], None)"] by simp
  then have "x = Coordination b cs cj pr co po \<or>
        (\<exists>c \<in> set cs. x \<in> set (fst (if c = NoneV then ([NoneV], None) else constituents c)))"
  proof
    assume "x \<in> set [Coordination b cs cj pr co po]"
    then show ?thesis by simp
  next
    assume "x \<in> set (fst (gen_concat
        (map (\<lambda>c. if c = NoneV then ([NoneV], None) else constituents c) cs)))"
    from in_gen_concat_map[OF this] show ?thesis by (rule disjI2)
  qed
  then show ?case
  proof
    assume "x = Coordination b cs cj pr co po" then show ?thesis by simp
  next
    assume "\<exists>c \<in> set cs. x \<in> set (fst (if c = NoneV then ([NoneV], None) else constituents c))"
    then obtain c where c: "c \<in> set cs"
      and x: "x \<in> set (fst (if c = NoneV then ([NoneV], None) else constituents c))" by blast
    have "size x \<le> size c"
    proof (cases "c = NoneV")
      case True with x show ?thesis by simp
    next
      case False
      with x have "x \<in> set (fst (constituents c))" by simp
      with "6.IH"[OF c False] show ?thesis .
    qed
    with size_list_mem[OF c] show ?thesis by simp
  qed
next
  case (7 c b sp fr pr h co po)
  let ?P = "Phrase c b sp fr pr h co po"
  have mods: "size x \<le> size_list size es"
    if "x \<in> set (fst (gen_concat (map (\<lambda>m. yield_from_each constituents (constituents m)) es)))"
      and "\<And>e y. e \<in> set es \<Longrightarrow> y \<in> set (fst (constituents e)) \<Longrightarrow> size y \<le> size e"
      and "\<And>e y z. e \<in> set es \<Longrightarrow> y \<in> set (fst (constituents e)) \<Longrightarrow>
             z \<in> set (fst (constituents y)) \<Longrightarrow> size z \<le> size y" for es
  proof -
    from in_yield_mods[OF that(1)] obtain e y where
      "e \<in> set es" "y \<in> set (fst (constituents e))" "x \<in> set (fst (constituents y))" by blast
    with that(2)[of e y] that(3)[of e y x] size_list_mem[of e es] show ?thesis by simp
  qed
  have slot: "size x \<le> size e"
    if "x \<in> set (fst (yield_from_each constituents (constituents e)))"
      and "\<And>y. y \<in> set (fst (constituents e)) \<Longrightarrow> size y \<le> size e"
      and "\<And>y z. y \<in> set (fst (constituents e)) \<Longrightarrow>
             z \<in> set (fst (constituents y)) \<Longrightarrow> size z \<le> size y" for e
  proof -
    from in_yield_from_each[OF that(1)] obtain y where
      "y \<in> set (fst (constituents e))" "x \<in> set (fst (constituents y))" by blast
    with that(2)[of y] that(3)[of y x] show ?thesis by simp
  qed
  from "7.prems" "7.hyps" have "x \<in> set (fst (gen_concat
       [([?P], None),
        (if c = NounPhrase_c \<and> sp \<noteq> NoneV
         then yield_from_each constituents (constituents sp) else ([], None)),
        gen_concat (map (\<lambda>m. yield_from_each constituents (constituents m)) fr),
        gen_concat (map (\<lambda>m. yield_from_each constituents (constituents m)) pr),
        (if h \<noteq> NoneV then yield_from_each constituents (constituents h) else ([], None)),
        gen_concat (map (\<lambda>m. yield_from_each constituents (constituents m)) co),
        gen_concat (map (\<lambda>m. yield_from_each constituents (constituents m)) po)]))"
    by (simp add: constituents.psimps)
  from in_gen_concat[OF this] consider
      (self) "x = ?P"
    | (spec) "c = NounPhrase_c" "sp \<noteq> NoneV" "x \<in> set (fst (yield_from_each constituents (constituents sp)))"
    | (front) "x \<in> set (fst (gen_concat (map (\<lambda>m. yield_from_each constituents (constituents m)) fr)))"
    | (pre) "x \<in> set (fst (gen_concat (map (\<lambda>m. yield_from_each constituents (constituents m)) pr)))"
    | (head) "h \<noteq> NoneV" "x \<in> set (fst (yield_from_each constituents (constituents h)))"
    | (compl) "x \<in> set (fst (gen_concat (map (\<lambda>m. yield_from_each constituents (constituents m)) co)))"
    | (post) "x \<in> set (fst (gen_concat (map (\<lambda>m. yield_from_each constituents (constituents m)) po)))"
    by (auto split: if_splits)
  then show ?case
  proof cases
    case self then show ?thesis by simp
  next
    case spec
    then have "size x \<le> size sp"
      by (intro slot[of sp]) (use "7.IH"(1,2) in blast)+
    then show ?thesis by simp
  next
    case front
    then have "size x \<le> size_list size fr"
      by (intro mods[of fr]) (use "7.IH"(3,4) in blast)+
    then show ?thesis by simp
  next
    case pre
    then have "size x \<le> size_list size pr"
      by (intro mods[of pr]) (use "7.IH"(5,6) in blast)+
    then show ?thesis by simp
  next
    case head
    then have "size x \<le> size h"
      by (intro slot[of h]) (use "7.IH"(7,8) in blast)+
    then show ?thesis by simp
  next
    case compl
    then have "size x \<le> size_list size co"
      by (intro mods[of co]) (use "7.IH"(9,10) in blast)+
    then show ?thesis by simp
  next
    case post
    then have "size x \<le> size_list size po"
      by (intro mods[of po]) (use "7.IH"(11,12) in blast)+
    then show ?thesis by simp
  qed
next
  case (8 b fr pr su vp co po)
  let ?C = "Clause b fr pr su vp co po"
  have mods: "size x \<le> size_list size es"
    if "x \<in> set (fst (gen_concat (map (\<lambda>m. yield_from_each constituents (constituents m)) es)))"
      and "\<And>e y. e \<in> set es \<Longrightarrow> y \<in> set (fst (constituents e)) \<Longrightarrow> size y \<le> size e"
      and "\<And>e y z. e \<in> set es \<Longrightarrow> y \<in> set (fst (constituents e)) \<Longrightarrow>
             z \<in> set (fst (constituents y)) \<Longrightarrow> size z \<le> size y" for es
  proof -
    from in_yield_mods[OF that(1)] obtain e y where
      "e \<in> set es" "y \<in> set (fst (constituents e))" "x \<in> set (fst (constituents y))" by blast
    with that(2)[of e y] that(3)[of e y x] size_list_mem[of e es] show ?thesis by simp
  qed
  from "8.prems" "8.hyps" have "x \<in> set (fst (gen_concat
       [([?C], None),
        gen_concat (map (\<lambda>m. yield_from_each constituents (constituents m)) pr),
        constituents su,
        constituents vp,
        gen_concat (map (\<lambda>m. yield_from_each constituents (constituents m)) co),
        gen_concat (map (\<lambda>m. yield_from_each constituents (constituents m)) po)]))"
    by (simp add: constituents.psimps)
  from in_gen_concat[OF this] consider
      (self) "x = ?C"
    | (pre) "x \<in> set (fst (gen_concat (map (\<lambda>m. yield_from_each constituents (constituents m)) pr)))"
    | (subj) "x \<in> set (fst (constituents su))"
    | (vp) "x \<in> set (fst (constituents vp))"
    | (compl) "x \<in> set (fst (gen_concat (map (\<lambda>m. yield_from_each constituents (constituents m)) co)))"
    | (post) "x \<in> set (fst (gen_concat (map (\<lambda>m. yield_from_each constituents (constituents m)) po)))"
    by auto
  then show ?case
  proof cases
    case self then show ?thesis by simp
  next
    case pre
    then have "size x \<le> size_list size pr"
      by (intro mods[of pr]) (use "8.IH"(1,2) in blast)+
    then show ?thesis by simp
  next
    case subj
    then have "size x \<le> size su" by (rule "8.IH"(3))
    then show ?thesis by simp
  next
    case vp
    then have "size x \<le> size vp" by (rule "8.IH"(4))
    then show ?thesis by simp
  next
    case compl
    then have "size x \<le> size_list size co"
      by (intro mods[of co]) (use "8.IH"(5,6) in blast)+
    then show ?thesis by simp
  next
    case post
    then have "size x \<le> size_list size po"
      by (intro mods[of po]) (use "8.IH"(7,8) in blast)+
    then show ?thesis by simp
  qed
qed

lemma size_mem_trans:
  "e \<in> set es \<Longrightarrow> size y \<le> size e \<Longrightarrow> size y \<le> size_list size es"
  using size_list_mem[of e es] by simp

lemma size_nested:
  "constituents_dom e \<Longrightarrow> e \<in> set es \<Longrightarrow> y \<in> set (fst (constituents e))
   \<Longrightarrow> size y \<le> size_list size es"
  using constituents_size[of e y] size_list_mem[of e es] by simp

termination constituents
proof (relation "measure size", goal_cases)
  case 1
  show ?case by simp
next
  case (2 b cs cj pr co po x)
  then show ?case using size_list_mem[of x cs] by simp
next
  case (3 c b sp fr pr h co po)
  then show ?case by simp
next
  case (4 c b sp fr pr h co po x)
  then show ?case using constituents_size[of sp x] by simp
next
  case (5 c b sp fr pr h co po x)
  then show ?case using size_list_mem[of x fr] by simp
next
  case (6 c b sp fr pr h co po x xa)
  then show ?case using size_nested[of x fr xa] by simp
next
  case (7 c b sp fr pr h co po x)
  then show ?case using size_list_mem[of x pr] by simp
next
  case (8 c b sp fr pr h co po x xa)
  then show ?case using size_nested[of x pr xa] by simp
next
  case (9 c b sp fr pr h co po)
  then show ?case by simp
next
  case (10 c b sp fr pr h co po x)
  then show ?case using constituents_size[of h x] by simp
next
  case (11 c b sp fr pr h co po x)
  then show ?case using size_list_mem[of x co] by simp
next
  case (12 c b sp fr pr h co po x xa)
  then show ?case using size_nested[of x co xa] by simp
next
  case (13 c b sp fr pr h co po x)
  then show ?case using size_list_mem[of x po] by simp
next
  case (14 c b sp fr pr h co po x xa)
  then show ?case using size_nested[of x po xa] by simp
next
  case (15 b fr pr su vp co po x)
  then show ?case using size_list_mem[of x pr] by simp
next
  case (16 b fr pr su vp co po x xa)
  then show ?case using size_nested[of x pr xa] by simp
next
  case (17 b fr pr su vp co po)
  then show ?case by simp
next
  case (18 b fr pr su vp co po)
  then show ?case by simp
next
  case (19 b fr pr su vp co po x)
  then show ?case using size_list_mem[of x co] by simp
next
  case (20 b fr pr su vp co po x xa)
  then show ?case using size_nested[of x co xa] by simp
next
  case (21 b fr pr su vp co po x)
  then show ?case using size_list_mem[of x po] by simp
next
  case (22 b fr pr su vp co po x xa)
  then show ?case using size_nested[of x po xa] by simp
qed


subsection \<open>Constructors (\<open>__init__\<close>)\<close>

definition dict_update :: "(string \<times> string) list \<Rightarrow> (string \<times> string) list \<Rightarrow> (string \<times> string) list" where
  "dict_update d e = fold (\<lambda>(k, v). AList.update k v) e d"

definition set_feature :: "base \<Rightarrow> string \<Rightarrow> string \<Rightarrow> base" where
  "set_feature b k v = b\<lparr>features := AList.update k v (features b)\<rparr>"

definition has_feature :: "base \<Rightarrow> string \<Rightarrow> string option \<Rightarrow> bool" where
  "has_feature b k v =
     (case map_of (features b) k of
        None \<Rightarrow> False
      | Some x \<Rightarrow> (case v of None \<Rightarrow> True | Some y \<Rightarrow> y = x))"

definition new_base :: "nat \<Rightarrow> etype \<Rightarrow> (string \<times> string) list \<Rightarrow> base" where
  "new_base n t fs = \<lparr>oid = n, ident = PInt 0, etype = t, features = fs, hash = - 1\<rparr>"

definition Element_new :: "etype \<Rightarrow> (string \<times> string) list \<Rightarrow> nat \<Rightarrow> elem \<times> nat" where
  "Element_new t fs n = (Element (new_base n t fs), n + 1)"

definition String_new :: "string \<Rightarrow> (string \<times> string) list \<Rightarrow> nat \<Rightarrow> elem \<times> nat" where
  "String_new val fs n = (String (new_base n STRING fs) val, n + 1)"

definition Word_new ::
  "string \<Rightarrow> string \<Rightarrow> (string \<times> string) list \<Rightarrow> string option \<Rightarrow> nat \<Rightarrow> elem \<times> nat" where
  "Word_new word pos fs bs n =
     (Word (set_feature (new_base n WORD fs) ''cat'' pos) word pos
        (case bs of None \<Rightarrow> word | Some b \<Rightarrow> if b = [] then word else b) False,
      n + 1)"

fun string_of_nat :: "nat \<Rightarrow> string" where
  "string_of_nat n =
     (if n < 10 then [char_of (48 + n)]
      else string_of_nat (n div 10) @ [char_of (48 + n mod 10)])"

definition str_of_atom :: "pyatom \<Rightarrow> string" where
  "str_of_atom a =
     (case a of
        PNone \<Rightarrow> ''None''
      | PStr s \<Rightarrow> s
      | PInt i \<Rightarrow> (if i < 0 then CHR ''-'' # string_of_nat (nat (- i)) else string_of_nat (nat i)))"

definition Var_new ::
  "pyatom \<Rightarrow> elem \<Rightarrow> (string \<times> string) list \<Rightarrow> nat \<Rightarrow> elem \<times> nat" where
  "Var_new i obj fs n =
     (if obj = NoneV
      then (let (w, n') = Word_new (str_of_atom i) ''NOUN'' [] None (n + 1)
            in (Var ((new_base n VAR fs)\<lparr>ident := i\<rparr>) w, n'))
      else (Var ((new_base n VAR fs)\<lparr>ident := i\<rparr>) obj, n + 1))"

definition Phrase_new ::
  "pclass \<Rightarrow> etype \<Rightarrow> (string \<times> string) list \<Rightarrow> nat \<Rightarrow> elem \<times> nat" where
  "Phrase_new c t fs n =
     (Phrase c (new_base n t fs) NoneV [] [] (Element (new_base (n + 1) ELEMENT [])) [] [], n + 2)"

definition features_of :: "elem \<Rightarrow> (string \<times> string) list" where
  "features_of e = (case base_of e of None \<Rightarrow> [] | Some b \<Rightarrow> features b)"

fun set_spec :: "elem \<Rightarrow> elem \<Rightarrow> nat \<Rightarrow> elem \<times> nat" where
  "set_spec (Phrase c b sp fr pr h co po) spec n =
     (if spec = NoneV then (Phrase c b (Element (new_base n ELEMENT [])) fr pr h co po, n + 1)
      else (Phrase c b spec fr pr h co po, n))"
| "set_spec e spec n = (e, n)"

fun set_head :: "elem \<Rightarrow> elem \<Rightarrow> nat \<Rightarrow> elem \<times> nat" where
  "set_head (Phrase c b sp fr pr h co po) elt n =
     (let (h', n') = (if elt = NoneV then Element_new ELEMENT [] n else (elt, n))
      in (Phrase c (b\<lparr>features := dict_update (features b) (features_of h')\<rparr>) sp fr pr h' co po,
          n'))"
| "set_head e elt n = (e, n)"

definition NounPhrase_new ::
  "elem \<Rightarrow> elem \<Rightarrow> (string \<times> string) list \<Rightarrow> nat \<Rightarrow> elem \<times> nat" where
  "NounPhrase_new head spec fs n =
     (let (self, n1) = Phrase_new NounPhrase_c NOUN_PHRASE fs n;
          (self, n2) = set_spec self spec n1
      in set_head self head n2)"

definition etype_of_class :: "pclass \<Rightarrow> etype" where
  "etype_of_class c =
     (case c of
        Phrase_c \<Rightarrow> PHRASE
      | NounPhrase_c \<Rightarrow> NOUN_PHRASE
      | VerbPhrase_c \<Rightarrow> VERB_PHRASE
      | PrepositionalPhrase_c \<Rightarrow> PREPOSITIONAL_PHRASE
      | AdverbPhrase_c \<Rightarrow> ADVERB_PHRASE
      | AdjectivePhrase_c \<Rightarrow> ADJECTIVE_PHRASE)"

fun add_complement :: "elem \<Rightarrow> elem list \<Rightarrow> elem" where
  "add_complement (Phrase c b sp fr pr h co po) mods = Phrase c b sp fr pr h (co @ mods) po"
| "add_complement (Clause b fr pr su vp co po) mods = Clause b fr pr su vp (co @ mods) po"
| "add_complement e mods = e"

fun add_pre_modifier :: "elem \<Rightarrow> elem list \<Rightarrow> elem" where
  "add_pre_modifier (Phrase c b sp fr pr h co po) mods = Phrase c b sp fr (rev mods @ pr) h co po"
| "add_pre_modifier (Clause b fr pr su vp co po) mods = Clause b fr (rev mods @ pr) su vp co po"
| "add_pre_modifier e mods = e"




definition HeadPhrase_new ::
  "pclass \<Rightarrow> elem \<Rightarrow> elem list \<Rightarrow> (string \<times> string) list \<Rightarrow> nat \<Rightarrow> elem \<times> nat" where
  "HeadPhrase_new c head compl fs n =
     (let (self, n1) = Phrase_new c (etype_of_class c) fs n;
          (self, n2) = set_head self head n1
      in (add_complement self compl, n2))"


definition Coordination_new ::
  "elem list \<Rightarrow> string \<Rightarrow> (string \<times> string) list \<Rightarrow> nat \<Rightarrow> elem \<times> nat" where
  "Coordination_new coords cj fs n =
     (Coordination (set_feature (new_base n COORDINATION fs) ''conj'' cj) coords cj [] [] [],
      n + 1)"

text \<open>\<open>raise_to_np\<close> and \<open>raise_to_vp\<close>.\<close>

fun raise_to_np :: "elem \<Rightarrow> nat \<Rightarrow> elem \<times> nat"
  and raise_to_np_list :: "elem list \<Rightarrow> nat \<Rightarrow> elem list \<times> nat" where
  "raise_to_np (Coordination b cs cj pr co po) n =
     (let (cs', n') = raise_to_np_list cs n in (Coordination b cs' cj pr co po, n'))"
| "raise_to_np (String b v) n = NounPhrase_new (String b v) NoneV [] n"
| "raise_to_np (Word b w p bs i) n = NounPhrase_new (Word b w p bs i) NoneV [] n"
| "raise_to_np e n = (e, n)"
| "raise_to_np_list [] n = ([], n)"
| "raise_to_np_list (c # cs) n =
     (let (c', n1) = raise_to_np c n; (cs', n2) = raise_to_np_list cs n1 in (c' # cs', n2))"

fun raise_to_vp :: "elem \<Rightarrow> nat \<Rightarrow> elem \<times> nat"
  and raise_to_vp_list :: "elem list \<Rightarrow> nat \<Rightarrow> elem list \<times> nat" where
  "raise_to_vp (Coordination b cs cj pr co po) n =
     (let (cs', n') = raise_to_vp_list cs n in (Coordination b cs' cj pr co po, n'))"
| "raise_to_vp (String b v) n = HeadPhrase_new VerbPhrase_c (String b v) [] [] n"
| "raise_to_vp (Word b w p bs i) n = HeadPhrase_new VerbPhrase_c (Word b w p bs i) [] [] n"
| "raise_to_vp e n = (e, n)"
| "raise_to_vp_list [] n = ([], n)"
| "raise_to_vp_list (c # cs) n =
     (let (c', n1) = raise_to_vp c n; (cs', n2) = raise_to_vp_list cs n1 in (c' # cs', n2))"

text \<open>
  \<open>Clause.__init__\<close>: \<open>set_subj\<close> replaces a subject without truth value
  (\<open>None\<close>, a bare \<open>Element\<close>, an empty \<open>String\<close>) by a new \<open>Element()\<close>;
  \<open>set_vp\<close> assigns to \<open>vp.parent\<close> and so raises on \<open>None\<close>.
\<close>

definition Clause_new ::
  "elem \<Rightarrow> elem \<Rightarrow> (string \<times> string) list \<Rightarrow> nat \<Rightarrow> error + (elem \<times> nat)" where
  "Clause_new subj vp fs n =
     (let (subj1, n1) = raise_to_np subj (n + 1);
          (subj2, n2) = (if py_bool subj1 then (subj1, n1) else Element_new ELEMENT [] n1);
          (vp1, n3) = raise_to_vp vp n2
      in if vp1 = NoneV then Inl AttributeError
         else Inr (Clause (new_base n CLAUSE fs) [] [] subj2 vp1 [] [], n3))"

subsection \<open>Deep copy (\<open>__deepcopy__\<close>)\<close>

definition copy_id_hash :: "base \<Rightarrow> elem \<Rightarrow> elem" where
  "copy_id_hash b e =
     (case e of
        Element c \<Rightarrow> Element (c\<lparr>ident := ident b, hash := hash b\<rparr>)
      | String c v \<Rightarrow> String (c\<lparr>ident := ident b, hash := hash b\<rparr>) v
      | Word c w p bs i \<Rightarrow> Word (c\<lparr>ident := ident b, hash := hash b\<rparr>) w p bs i
      | Var c v \<Rightarrow> Var (c\<lparr>ident := ident b, hash := hash b\<rparr>) v
      | Coordination c cs cj pr co po \<Rightarrow>
          Coordination (c\<lparr>ident := ident b, hash := hash b\<rparr>) cs cj pr co po
      | Phrase k c sp fr pr h co po \<Rightarrow>
          Phrase k (c\<lparr>ident := ident b, hash := hash b\<rparr>) sp fr pr h co po
      | Clause c fr pr su vp co po \<Rightarrow>
          Clause (c\<lparr>ident := ident b, hash := hash b\<rparr>) fr pr su vp co po
      | NoneV \<Rightarrow> NoneV)"

definition copy_id :: "base \<Rightarrow> elem \<Rightarrow> elem" where
  "copy_id b e =
     (case e of
        Coordination c cs cj pr co po \<Rightarrow> Coordination (c\<lparr>ident := ident b\<rparr>) cs cj pr co po
      | Phrase k c sp fr pr h co po \<Rightarrow> Phrase k (c\<lparr>ident := ident b\<rparr>) sp fr pr h co po
      | Clause c fr pr su vp co po \<Rightarrow> Clause (c\<lparr>ident := ident b\<rparr>) fr pr su vp co po
      | _ \<Rightarrow> e)"

fun set_lists :: "elem \<Rightarrow> elem list \<Rightarrow> elem list \<Rightarrow> elem list \<Rightarrow> elem list \<Rightarrow> elem" where
  "set_lists (Phrase c b sp fr pr h co po) fr' pr' co' po' = Phrase c b sp fr' pr' h co' po'"
| "set_lists (Clause b fr pr su vp co po) fr' pr' co' po' = Clause b fr' pr' su vp co' po'"
| "set_lists e fr' pr' co' po' = e"

fun set_head_slot :: "elem \<Rightarrow> elem \<Rightarrow> elem" where
  "set_head_slot (Phrase c b sp fr pr h co po) h' = Phrase c b sp fr pr h' co po"
| "set_head_slot e h' = e"

fun set_coords :: "elem \<Rightarrow> elem list \<Rightarrow> elem" where
  "set_coords (Coordination b cs cj pr co po) cs' = Coordination b cs' cj pr co po"
| "set_coords e cs' = e"

fun set_complements :: "elem \<Rightarrow> elem list \<Rightarrow> elem" where
  "set_complements (Phrase c b sp fr pr h co po) co' = Phrase c b sp fr pr h co' po"
| "set_complements (Clause b fr pr su vp co po) co' = Clause b fr pr su vp co' po"
| "set_complements (Coordination b cs cj pr co po) co' = Coordination b cs cj pr co' po"
| "set_complements e co' = e"

text \<open>
  \<open>copy.deepcopy\<close>. \<open>None\<close> is returned as it is; an element is copied by the
  \<open>__deepcopy__\<close> of its class; a list is copied item by item under one memo, so
  that an object met twice in the list is copied once. The \<open>__deepcopy__\<close>
  methods pass no memo on, so every inner copy starts with an empty one. The last
  argument is the next unused identity; the result carries the one after the copy.
\<close>

definition bind :: "error + 'a \<Rightarrow> ('a \<Rightarrow> error + 'b) \<Rightarrow> error + 'b" where
  "bind m f = (case m of Inl e \<Rightarrow> Inl e | Inr x \<Rightarrow> f x)"

primrec deepcopy :: "elem \<Rightarrow> nat \<Rightarrow> error + (elem \<times> nat)"
  and deepcopy_list ::
    "elem list \<Rightarrow> (nat \<times> elem) list \<Rightarrow> nat \<Rightarrow> error + (elem list \<times> nat)" where
  "deepcopy NoneV n = Inr (NoneV, n)"
| "deepcopy (Element b) n =
     Inr (case Element_new (etype b) (features b) n of (e, n') \<Rightarrow> (copy_id_hash b e, n'))"
| "deepcopy (String b v) n =
     Inr (case String_new v (features b) n of (e, n') \<Rightarrow> (copy_id_hash b e, n'))"
| "deepcopy (Word b w p bs i) n =
     Inr (case Word_new w p (features b) (Some bs) n of (e, n') \<Rightarrow> (copy_id_hash b e, n'))"
| "deepcopy (Var b v) n =
     Inr (case Var_new (ident b) v (features b) n of (e, n') \<Rightarrow> (copy_id_hash b e, n'))"
| "deepcopy (Coordination b cs cj pr co po) n =
     (case Coordination_new [] cj (features b) n of (e, n1) \<Rightarrow>
      bind (deepcopy_list cs [] n1) (\<lambda>(cs', n2).
      Inr (copy_id b (set_coords e cs'), n2)))"
| "deepcopy (Phrase c b sp fr pr h co po) n =
     (if c = Phrase_c then
        (case Phrase_new Phrase_c (etype b) (features b) n of (e, n1) \<Rightarrow>
         bind (deepcopy_list fr [] n1) (\<lambda>(fr', n2).
         bind (deepcopy_list pr [] n2) (\<lambda>(pr', n3).
         bind (deepcopy h n3) (\<lambda>(h', n4).
         bind (deepcopy_list co [] n4) (\<lambda>(co', n5).
         bind (deepcopy_list po [] n5) (\<lambda>(po', n6).
         Inr (set_lists (set_head_slot (copy_id b e) h') fr' pr' co' po', n6)))))))
      else if c = NounPhrase_c then
        bind (deepcopy h n) (\<lambda>(h', n1).
        bind (deepcopy sp n1) (\<lambda>(sp', n2).
        (case NounPhrase_new h' sp' (features b) n2 of (e, n3) \<Rightarrow>
         Inr (copy_id_hash b e, n3))))
      else
        bind (deepcopy h n) (\<lambda>(h', n1).
        (case HeadPhrase_new c h' [] (features b) n1 of (e, n2) \<Rightarrow>
         bind (deepcopy_list co [] n2) (\<lambda>(co', n3).
         Inr (set_complements (copy_id_hash b e) co', n3)))))"
| "deepcopy (Clause b fr pr su vp co po) n =
     bind (deepcopy su n) (\<lambda>(su', n1).
     bind (deepcopy vp n1) (\<lambda>(vp', n2).
     bind (Clause_new su' vp' (features b) n2) (\<lambda>(e, n3).
     bind (deepcopy_list fr [] n3) (\<lambda>(fr', n4).
     bind (deepcopy_list pr [] n4) (\<lambda>(pr', n5).
     bind (deepcopy_list co [] n5) (\<lambda>(co', n6).
     bind (deepcopy_list po [] n6) (\<lambda>(po', n7).
     Inr (set_lists (copy_id b e) fr' pr' co' po', n7))))))))"
| "deepcopy_list [] memo n = Inr ([], n)"
| "deepcopy_list (x # xs) memo n =
     (case base_of x of
        None \<Rightarrow> bind (deepcopy_list xs memo n) (\<lambda>(ys, n'). Inr (x # ys, n'))
      | Some b \<Rightarrow>
          (case map_of memo (oid b) of
             Some y \<Rightarrow> bind (deepcopy_list xs memo n) (\<lambda>(ys, n'). Inr (y # ys, n'))
           | None \<Rightarrow>
               bind (deepcopy x n) (\<lambda>(y, n1).
               bind (deepcopy_list xs ((oid b, y) # memo) n1) (\<lambda>(ys, n').
               Inr (y # ys, n')))))"

subsection \<open>Hashing (\<open>__hash__\<close>)\<close>

text \<open>
  The hashes of Python's own values are parameters: \<open>hash_str\<close>, \<open>hash_int\<close>,
  \<open>hash_none\<close> for strings, integers and \<open>None\<close>, \<open>hash_tuple\<close> for a
  tuple, from the hashes of its items, and \<open>hash_result\<close> for the conversion that
  \<open>hash(obj)\<close> applies to what \<open>obj.__hash__()\<close> returns.
\<close>

record py_hash =
  hash_str :: "string \<Rightarrow> int"
  hash_int :: "int \<Rightarrow> int"
  hash_none :: int
  hash_tuple :: "int list \<Rightarrow> int"
  hash_result :: "int \<Rightarrow> int"

definition hash_atom :: "py_hash \<Rightarrow> pyatom \<Rightarrow> int" where
  "hash_atom H a =
     (case a of PNone \<Rightarrow> hash_none H | PInt i \<Rightarrow> hash_int H i | PStr s \<Rightarrow> hash_str H s)"

text \<open>
  \<open>Element.__hash__\<close>: the cache is filled on the first call. The tuple hashed has
  one item \<open>'k:v'\<close> per feature (the format string has no placeholder).
\<close>

definition Element_hash :: "py_hash \<Rightarrow> base \<Rightarrow> int \<times> base" where
  "Element_hash H b =
     (if hash b = - 1
      then (let h = hash_atom H (ident b) XOR hash_tuple H (map (\<lambda>_. hash_str H ''k:v'') (features b))
            in (h, b\<lparr>hash := h\<rparr>))
      else (hash b, b))"

text \<open>
  \<open>hash(obj)\<close>, with the object as the call leaves it. \<open>Coordination\<close> and
  \<open>Phrase\<close> define \<open>__hash__\<close> as a failing assertion, which the classes
  \<open>VerbPhrase\<close>, \<open>PrepositionalPhrase\<close>, \<open>AdverbPhrase\<close> and
  \<open>AdjectivePhrase\<close> inherit; \<open>NounPhrase\<close> and \<open>Clause\<close> define
  \<open>__eq__\<close> and no \<open>__hash__\<close>, so Python sets their \<open>__hash__\<close> to
  \<open>None\<close> and \<open>hash\<close> raises \<open>TypeError\<close>. In \<open>Var.__hash__\<close>
  the call of \<open>super().__hash__()\<close> fills the cache before the value is hashed.
\<close>

primrec hash_obj :: "py_hash \<Rightarrow> elem \<Rightarrow> (error + int) \<times> elem" where
  "hash_obj H NoneV = (Inr (hash_none H), NoneV)"
| "hash_obj H (Element b) =
     (case Element_hash H b of (h, b') \<Rightarrow> (Inr (hash_result H h), Element b'))"
| "hash_obj H (String b v) =
     (if hash b = - 1
      then (case Element_hash H b of (h, b') \<Rightarrow>
              (let h' = (11 * h) XOR hash_str H v
               in (Inr (hash_result H h'), String (b'\<lparr>hash := h'\<rparr>) v)))
      else (Inr (hash_result H (hash b)), String b v))"
| "hash_obj H (Word b w p bs i) =
     (if hash b = - 1
      then (case Element_hash H b of (h, b') \<Rightarrow>
              (let h' = (11 * h) XOR (hash_str H p XOR hash_str H w)
               in (Inr (hash_result H h'), Word (b'\<lparr>hash := h'\<rparr>) w p bs i)))
      else (Inr (hash_result H (hash b)), Word b w p bs i))"
| "hash_obj H (Var b v) =
     (if hash b = - 1
      then (case Element_hash H b of (h, b') \<Rightarrow>
              (case hash_obj H v of
                 (Inl e, v') \<Rightarrow> (Inl e, Var b' v')
               | (Inr hv, v') \<Rightarrow>
                   (let h' = (11 * h) XOR (hash_atom H (ident b) AND hv)
                    in (Inr (hash_result H h'), Var (b'\<lparr>hash := h'\<rparr>) v'))))
      else (Inr (hash_result H (hash b)), Var b v))"
| "hash_obj H (Coordination b cs cj pr co po) =
     (Inl AssertionError, Coordination b cs cj pr co po)"
| "hash_obj H (Phrase c b sp fr pr h co po) =
     (if c = NounPhrase_c then Inl TypeError else Inl AssertionError,
      Phrase c b sp fr pr h co po)"
| "hash_obj H (Clause b fr pr su vp co po) = (Inl TypeError, Clause b fr pr su vp co po)"

subsection \<open>Replacement by value (microplanning/visitors.py)\<close>



subsection \<open>Scan order of the replacement\<close>

text \<open>
  The position of a node below an element is a path: the slots to follow from the
  element down to the node. \<open>scan e\<close> lists the positions whose nodes
  \<open>replace_element\<close> compares with the target, in the order of the comparisons;
  \<open>scan_fwd\<close> and \<open>scan_rev\<close> do so for the items of a list, from the first
  item on and from the last item down, each position with the index of its item.
  \<open>child\<close>, \<open>set_child\<close> and \<open>del_child\<close> read, overwrite and delete
  the node of a slot, \<open>node_at\<close> follows a path, and \<open>splice_at e p r\<close> is
  \<open>e\<close> with \<open>r\<close> in the place of the node at \<open>p\<close>: an item of a list is
  deleted when \<open>r\<close> is \<open>None\<close>, any other slot is overwritten.
  \<open>first_match\<close> is the first position of the scan order whose node equals the
  target, and \<open>replace_spec\<close> is the replacement at that position;
  \<open>lmatch\<close>, \<open>lsplice\<close> and \<open>lreplace_spec\<close> are the same for the items
  of a list. That \<open>replace_element\<close> is \<open>replace_spec\<close> is proved with the
  properties of the replacement.
\<close>

datatype slot = Subj | Vp | Coord nat | PostMod nat | Compl nat | Head | PreMod nat | Spec

type_synonym path = "slot list"

primrec scan :: "elem \<Rightarrow> path list"
  and scan_fwd :: "elem list \<Rightarrow> (nat \<times> path) list"
  and scan_rev :: "elem list \<Rightarrow> (nat \<times> path) list" where
  "scan NoneV = []"
| "scan (Element b) = []"
| "scan (String b v) = []"
| "scan (Word b w p bs i) = []"
| "scan (Var b v) = []"
| "scan (Clause b fr pr su vp co po) =
     ([Subj] # map ((#) Subj) (scan su)) @ ([Vp] # map ((#) Vp) (scan vp))"
| "scan (Coordination b cs cj pr co po) = map (\<lambda>(j, q). Coord j # q) (scan_fwd cs)"
| "scan (Phrase c b sp fr pr h co po) =
     map (\<lambda>(j, q). PostMod j # q) (scan_rev po)
     @ map (\<lambda>(j, q). Compl j # q) (scan_rev co)
     @ [[Head]]
     @ map (\<lambda>(j, q). PreMod j # q) (scan_rev pr)
     @ (if c = NounPhrase_c then [[Spec]] else [])"
| "scan_fwd [] = []"
| "scan_fwd (x # xs) = ((0, []) # map (Pair 0) (scan x)) @ map (apfst Suc) (scan_fwd xs)"
| "scan_rev [] = []"
| "scan_rev (x # xs) = map (apfst Suc) (scan_rev xs) @ ((0, []) # map (Pair 0) (scan x))"














subsection \<open>Replacement methods (structures.py)\<close>

text \<open>
  The method \<open>replace(one, another)\<close> of the element classes, with the next unused
  identity as last argument (\<open>Clause.replace\<close> builds new phrases through
  \<open>raise_to_np\<close> and \<open>raise_to_vp\<close>). \<open>replace_items\<close> is the loop
  \<open>for i, o in enumerate(lst)\<close> of these methods; its flag tells whether a matching
  item is deleted: \<open>Phrase.replace\<close> deletes when \<open>another is None\<close>,
  \<open>Coordination.replace\<close> when \<open>another\<close> has no truth value.
  \<open>NounPhrase.replace\<close> looks at the specifier first and then runs
  \<open>Phrase.replace\<close>: front-modifiers, pre-modifiers, head, complements,
  post-modifiers, every list from its first item on.
\<close>


text \<open>
  The branch of \<open>Phrase.replace\<close> taken when the head equals the target. The
  features that the old head gave to the phrase are deleted; a replacement with the
  \<open>_type\<close> of the phrase is merged into it (\<open>add_front_modifier\<close> and
  \<open>add_pre_modifier\<close> insert each item at position 0, the other two append), any
  other replacement becomes the head; at the end the features of the replacement are
  added. Reading an attribute that the object does not have raises
  \<open>AttributeError\<close>: \<open>features\<close> of \<open>None\<close>, \<open>front_modifiers\<close> of
  an element that is neither a phrase nor a clause, \<open>head\<close> of a clause, and
  \<open>parent\<close> of a \<open>None\<close> item.
\<close>

definition replace_head :: "elem \<Rightarrow> elem \<Rightarrow> error + elem" where
  "replace_head self another =
     (case self of
        Phrase c b sp fr pr h co po \<Rightarrow>
          (if h = NoneV then Inl AttributeError
           else
             (let b1 = b\<lparr>features :=
                       filter (\<lambda>kv. fst kv \<notin> set (map fst (features_of h))) (features b)\<rparr>
              in case another of
                   NoneV \<Rightarrow> Inl AttributeError
                 | Phrase c2 b2 sp2 fr2 pr2 h2 co2 po2 \<Rightarrow>
                     (if etype b = etype b2 then
                        (if NoneV \<in> set (fr2 @ pr2 @ co2 @ po2) then Inl AttributeError
                         else Inr (Phrase c
                                (b1\<lparr>features := dict_update (features b1) (features b2)\<rparr>)
                                (if c = NounPhrase_c \<and> c2 = NounPhrase_c then sp2 else sp)
                                (rev fr2 @ fr) (rev pr2 @ pr) h2 (co @ co2) (po @ po2)))
                      else Inr (Phrase c
                             (b1\<lparr>features := dict_update (features b1) (features b2)\<rparr>)
                             sp fr pr another co po))
                 | _ \<Rightarrow>
                     (if map_option etype (base_of another) = Some (etype b)
                      then Inl AttributeError
                      else Inr (Phrase c
                             (b1\<lparr>features := dict_update (features b1) (features_of another)\<rparr>)
                             sp fr pr another co po))))
      | _ \<Rightarrow> Inl AttributeError)"

primrec replace_m :: "elem \<Rightarrow> elem \<Rightarrow> elem \<Rightarrow> nat \<Rightarrow> error + (bool \<times> elem \<times> nat)"
  and replace_items ::
    "elem list \<Rightarrow> bool \<Rightarrow> elem \<Rightarrow> elem \<Rightarrow> nat \<Rightarrow> error + (bool \<times> elem list \<times> nat)" where
  "replace_m NoneV one another n = Inl AttributeError"
| "replace_m (Element b) one another n = Inr (False, Element b, n)"
| "replace_m (String b v) one another n = Inr (False, String b v, n)"
| "replace_m (Word b w p bs i) one another n = Inr (False, Word b w p bs i, n)"
| "replace_m (Var b v) one another n = Inr (False, Var b v, n)"
| "replace_m (Coordination b cs cj pr co po) one another n =
     bind (replace_items cs (\<not> py_bool another) one another n) (\<lambda>(res, cs', n').
     Inr (res, Coordination b cs' cj pr co po, n'))"
| "replace_m (Phrase c b sp fr pr h co po) one another n =
     (if c = NounPhrase_c \<and> elem_eq sp one then Inr (True, Phrase c b another fr pr h co po, n)
      else
     bind (if c = NounPhrase_c \<and> sp \<noteq> NoneV then replace_m sp one another n
           else Inr (False, sp, n)) (\<lambda>(res, sp', n1).
     if res then Inr (True, Phrase c b sp' fr pr h co po, n1) else
     bind (replace_items fr (another = NoneV) one another n1) (\<lambda>(res, fr', n2).
     if res then Inr (True, Phrase c b sp' fr' pr h co po, n2) else
     bind (replace_items pr (another = NoneV) one another n2) (\<lambda>(res, pr', n3).
     if res then Inr (True, Phrase c b sp' fr' pr' h co po, n3) else
     if elem_eq h one then
       map_sum id (\<lambda>e. (True, e, n3))
         (replace_head (Phrase c b sp' fr' pr' h co po) another)
     else
     bind (if h \<noteq> NoneV then replace_m h one another n3 else Inr (False, h, n3))
       (\<lambda>(res, h', n4).
     if res then Inr (True, Phrase c b sp' fr' pr' h' co po, n4) else
     bind (replace_items co (another = NoneV) one another n4) (\<lambda>(res, co', n5).
     if res then Inr (True, Phrase c b sp' fr' pr' h' co' po, n5) else
     bind (replace_items po (another = NoneV) one another n5) (\<lambda>(res, po', n6).
     Inr (res, Phrase c b sp' fr' pr' h' co' po', n6))))))))"
| "replace_m (Clause b fr pr su vp co po) one another n =
     (if elem_eq su one then
        (if another = NoneV then Inl AttributeError
         else (case raise_to_np another n of (su', n1) \<Rightarrow>
                 Inr (True, Clause b fr pr su' vp co po, n1)))
      else
     bind (if su \<noteq> NoneV then replace_m su one another n else Inr (False, su, n))
       (\<lambda>(res, su', n1).
     if res then Inr (True, Clause b fr pr su' vp co po, n1) else
     if elem_eq vp one then
        (if another = NoneV then Inl AttributeError
         else (case raise_to_vp another n1 of (vp', n2) \<Rightarrow>
                 Inr (True, Clause b fr pr su' vp' co po, n2)))
     else
     bind (if vp \<noteq> NoneV then replace_m vp one another n1 else Inr (False, vp, n1))
       (\<lambda>(res, vp', n2).
     Inr (res, Clause b fr pr su' vp' co po, n2))))"
| "replace_items [] del one another n = Inr (False, [], n)"
| "replace_items (x # xs) del one another n =
     (if elem_eq x one then Inr (True, (if del then xs else another # xs), n)
      else
     bind (replace_m x one another n) (\<lambda>(res, x', n1).
     if res then Inr (True, x' # xs, n1) else
     bind (replace_items xs del one another n1) (\<lambda>(res, xs', n2).
     Inr (res, x' # xs', n2))))"


section \<open>Referring expressions (reg.py)\<close>

subsection \<open>Pronoun case (\<open>optimise_ref_exp\<close>)\<close>



text \<open>
  The enumeration \<open>PronounUse\<close> belongs to the lexicon module, which is not in the
  sources; its members are the ones that reg.py names.
\<close>

datatype PronounUse = subjective | objective | reflexive | possessive


subsection \<open>Initial and repeated reference (\<open>generate_ref_exp\<close>)\<close>

text \<open>
  The property \<open>string\<close> of an element; on \<open>None\<close> the attribute is missing.
\<close>

primrec string_prop :: "elem \<Rightarrow> error + string option"
  and string_first :: "elem list \<Rightarrow> error + string option" where
  "string_prop NoneV = Inl AttributeError"
| "string_prop (Element b) = Inr None"
| "string_prop (String b v) = Inr (Some v)"
| "string_prop (Word b w p bs i) = Inr (Some w)"
| "string_prop (Var b v) = (if py_bool v then string_prop v else Inr None)"
| "string_prop (Coordination b cs cj pr co po) = string_first cs"
| "string_prop (Phrase c b sp fr pr h co po) = Inr None"
| "string_prop (Clause b fr pr su vp co po) = Inr None"
| "string_first [] = Inl IndexError"
| "string_first (x # xs) = string_prop x"

text \<open>
  Modelled from the spec: the ontology collaborator and the discourse context
  (\<open>LinguisticContext\<close>, module \<open>ctx\<close>) are not in the sources. The ontology is
  taken as a parameter: its two queries return a value or raise. The registry
  \<open>referents\<close> is, in the words of the spec, a map from referent keys to pairs
  \<open>(isGloballyUnique, cachedExpression)\<close>; it is modelled as a Python \<open>dict\<close>,
  which is how reg.py uses it (\<open>in\<close>, subscription, \<open>keys()\<close>). reg.py stores
  keys of two kinds: strings and elements.

  A dictionary is the list of its entries in insertion order, each with the hash of its
  key. A lookup finds the first entry whose stored hash is the hash of the probe and
  whose key is the probe or compares equal to it, the stored key on the left of
  \<open>==\<close>. A string and an element never compare equal: \<open>str.__eq__\<close> declines,
  and the \<open>__eq__\<close> of \<open>String\<close> and of \<open>Word\<close> return \<open>False\<close> for an
  operand that is not of their class.

  The field \<open>next_id\<close> is the identity that the next new object gets; it stands
  for the allocator and is not an attribute of the Python context.
\<close>

record ontology =
  best_entity_type :: "string \<Rightarrow> error + string"
  entities_of_type :: "string \<Rightarrow> error + string list"

datatype refkey = RefStr string | RefElem elem

type_synonym 'v pydict = "(int \<times> refkey \<times> 'v) list"

record Context =
  ontology :: "ontology option"
  referents :: "(bool \<times> elem) pydict"
  next_id :: nat

definition key_eq :: "refkey \<Rightarrow> refkey \<Rightarrow> bool" where
  "key_eq stored probe =
     (case (stored, probe) of
        (RefStr s, RefStr t) \<Rightarrow> s = t
      | (RefElem a, RefElem b) \<Rightarrow> py_is a b \<or> elem_eq a b
      | _ \<Rightarrow> False)"

definition entry_matches :: "int \<Rightarrow> refkey \<Rightarrow> int \<times> refkey \<times> 'v \<Rightarrow> bool" where
  "entry_matches h k ent = (fst ent = h \<and> key_eq (fst (snd ent)) k)"

definition dict_contains :: "'v pydict \<Rightarrow> int \<Rightarrow> refkey \<Rightarrow> bool" where
  "dict_contains d h k = list_ex (entry_matches h k) d"

definition dict_get :: "'v pydict \<Rightarrow> int \<Rightarrow> refkey \<Rightarrow> 'v option" where
  "dict_get d h k = map_option (\<lambda>ent. snd (snd ent)) (find (entry_matches h k) d)"

primrec dict_set :: "'v pydict \<Rightarrow> int \<Rightarrow> refkey \<Rightarrow> 'v \<Rightarrow> 'v pydict" where
  "dict_set [] h k v = [(h, k, v)]"
| "dict_set (ent # d) h k v =
     (if entry_matches h k ent then (fst ent, fst (snd ent), v) # d
      else ent # dict_set d h k v)"

text \<open>\<open>s.rpartition(':')[2]\<close>: what follows the last colon, or all of \<open>s\<close>.\<close>

definition after_last_colon :: "string \<Rightarrow> string" where
  "after_last_colon s = rev (takeWhile (\<lambda>c. c \<noteq> CHR '':'') (rev s))"

text \<open>
  \<open>c.isupper()\<close> for one character; a string of the model holds code points below
  256, where the upper-case letters are A to Z and the accented capitals.
\<close>

definition is_upper :: "char \<Rightarrow> bool" where
  "is_upper c =
     (let n = (of_char c :: nat)
      in (65 \<le> n \<and> n \<le> 90) \<or> (192 \<le> n \<and> n \<le> 214) \<or> (216 \<le> n \<and> n \<le> 222))"

text \<open>
  Group 2 of \<open>re.search(r"([^0-9]+)([0-9]+)$", s)\<close>: the digits at the end of
  \<open>s\<close>, when there are some and something that is not a digit stands before them;
  \<open>$\<close> also matches before a newline that ends \<open>s\<close>.
\<close>

definition number_suffix :: "string \<Rightarrow> string option" where
  "number_suffix s =
     (let t = (if s \<noteq> [] \<and> last s = CHR 0x0A then butlast s else s);
          ds = rev (takeWhile is_digit (rev t));
          rest = rev (dropWhile is_digit (rev t))
      in if ds \<noteq> [] \<and> rest \<noteq> [] then Some ds else None)"

text \<open>Attribute reads and writes used by reg.py.\<close>

definition spec_of :: "elem \<Rightarrow> elem" where
  "spec_of e = (case e of Phrase c b sp fr pr h co po \<Rightarrow> sp | _ \<Rightarrow> NoneV)"

fun assign_spec :: "elem \<Rightarrow> elem \<Rightarrow> elem" where
  "assign_spec (Phrase c b sp fr pr h co po) sp' = Phrase c b sp' fr pr h co po"
| "assign_spec e sp' = e"

fun set_feature_of :: "elem \<Rightarrow> string \<Rightarrow> string \<Rightarrow> elem" where
  "set_feature_of (Phrase c b sp fr pr h co po) k v =
     Phrase c (set_feature b k v) sp fr pr h co po"
| "set_feature_of e k v = e"

definition has_feature_of :: "elem \<Rightarrow> string \<Rightarrow> string option \<Rightarrow> bool" where
  "has_feature_of e k v = (case base_of e of None \<Rightarrow> False | Some b \<Rightarrow> has_feature b k v)"

definition is_text :: "elem \<Rightarrow> bool" where
  "is_text e = (case e of String b v \<Rightarrow> True | Word b w p bs i \<Rightarrow> True | _ \<Rightarrow> False)"

text \<open>
  The two \<open>except\<close> branches of \<open>_do_initial_reference\<close>: the target itself is
  wrapped and cached under the target as key, which hashes it. The result is the
  expression, the target as the call leaves it (its hash cache filled) and the context.
  reg.py reads the features of the target as \<open>_features\<close>; structures.py names the
  dictionary \<open>features\<close>, and the model reads that.
\<close>

definition fallback_reference ::
  "py_hash \<Rightarrow> elem \<Rightarrow> Context \<Rightarrow> error + (elem \<times> elem \<times> Context)" where
  "fallback_reference H target ctx =
     (if target = NoneV then Inl AttributeError
      else
        (case hash_obj H target of
           (Inl e, target') \<Rightarrow> Inl e
         | (Inr h, target') \<Rightarrow>
             (case NounPhrase_new target' NoneV (features_of target') (next_id ctx) of
                (result, n) \<Rightarrow>
                  Inr (result, target',
                       ctx\<lparr>referents :=
                             dict_set (referents ctx) h (RefElem target') (False, result),
                           next_id := n\<rparr>))))"

text \<open>
  The \<open>try\<close> block of \<open>_do_initial_reference\<close>; \<open>Inl\<close> is an exception that
  leaves the block. \<open>distractors\<close> is the list of a set: only its length and, when
  the length is 1, its item are used. In the branch of a referent that is not unique the
  expression is cached first and then changed; the cache holds the same object, so it
  holds the changed expression.
\<close>

definition try_initial_reference ::
  "py_hash \<Rightarrow> elem \<Rightarrow> Context \<Rightarrow> error + (elem \<times> Context)" where
  "try_initial_reference H target ctx =
     bind (string_prop target) (\<lambda>str.
     (case str of
        None \<Rightarrow> Inl TypeError
      | Some referent \<Rightarrow>
          (if referent = [] then Inl IndexError
           else if is_upper (hd referent) then
             (case NounPhrase_new target NoneV (features_of target) (next_id ctx) of
                (result, n) \<Rightarrow>
                  Inr (set_feature_of result ''PROPER'' ''true'', ctx\<lparr>next_id := n\<rparr>))
           else
             (case ontology ctx of
                None \<Rightarrow> Inl AttributeError
              | Some onto \<Rightarrow>
                  bind (best_entity_type onto (CHR '':'' # referent)) (\<lambda>entity_type0.
                  (let entity_type = after_last_colon entity_type0 in
                   case Word_new entity_type ''NOUN'' [] None (next_id ctx) of (head, n1) \<Rightarrow>
                   case NounPhrase_new head NoneV [] n1 of (result, n2) \<Rightarrow>
                   bind (entities_of_type onto (CHR '':'' # entity_type)) (\<lambda>ents.
                   (let distractors = remdups (map after_last_colon ents);
                        count = length distractors
                    in if count = 0 \<or> (count = 1 \<and> hd distractors = referent) then
                         bind (deepcopy result n2) (\<lambda>(cached, n3).
                         (case Word_new ''the'' ''DETERMINER'' [] None n3 of (det, n4) \<Rightarrow>
                          Inr (assign_spec result det,
                               ctx\<lparr>referents :=
                                     dict_set (referents ctx) (hash_str H referent)
                                       (RefStr referent) (True, cached),
                                   next_id := n4\<rparr>)))
                       else
                         (case number_suffix referent of
                            None \<Rightarrow>
                              Inr (result,
                                   ctx\<lparr>referents :=
                                         dict_set (referents ctx) (hash_str H referent)
                                           (RefStr referent) (False, result),
                                       next_id := n2\<rparr>)
                          | Some number \<Rightarrow>
                              (case Word_new number ''ANY'' [] None n2 of (num, n3) \<Rightarrow>
                               (let result' =
                                      set_feature_of (add_complement result [num])
                                        ''PROPER'' ''true''
                                in Inr (result',
                                        ctx\<lparr>referents :=
                                              dict_set (referents ctx) (hash_str H referent)
                                                (RefStr referent) (False, result'),
                                            next_id := n3\<rparr>))))))))))))"

definition do_initial_reference ::
  "py_hash \<Rightarrow> elem \<Rightarrow> Context \<Rightarrow> error + (elem \<times> elem \<times> Context)" where
  "do_initial_reference H target ctx =
     (case try_initial_reference H target ctx of
        Inr (result, ctx') \<Rightarrow> Inr (result, target, ctx')
      | Inl e \<Rightarrow> fallback_reference H target ctx)"

text \<open>
  \<open>_do_repeated_reference\<close>. The expression of a referent that is not unique is the
  cached object itself, so the determiner assigned to it is assigned in the cache too.
  On a cached \<open>None\<close> both branches fail, at \<open>result.spec = ...\<close> or at
  \<open>result.has_feature\<close>. The registry that reg.py builds holds noun phrases only;
  on a cached element of another class Python would add an attribute \<open>spec\<close>,
  which the model does not record.
\<close>

definition do_repeated_reference ::
  "py_hash \<Rightarrow> elem \<Rightarrow> Context \<Rightarrow> error + (elem \<times> elem \<times> Context)" where
  "do_repeated_reference H referent ctx =
     (case hash_obj H referent of
        (Inl e, referent') \<Rightarrow> Inl e
      | (Inr h, referent') \<Rightarrow>
          (case dict_get (referents ctx) h (RefElem referent') of
             None \<Rightarrow> Inl KeyError
           | Some (is_unique, refexp) \<Rightarrow>
               (if refexp = NoneV then Inl AttributeError
                else if is_unique then
                  bind (deepcopy refexp (next_id ctx)) (\<lambda>(result, n1).
                  (case Word_new ''the'' ''DETERMINER'' [] None n1 of (det, n2) \<Rightarrow>
                   Inr (assign_spec result det, referent', ctx\<lparr>next_id := n2\<rparr>)))
                else if has_feature_of refexp ''PROPER'' (Some ''true'')
                  then Inr (refexp, referent', ctx)
                else
                  (case Word_new ''a'' ''DETERMINER'' [] None (next_id ctx) of (det, n1) \<Rightarrow>
                   Inr (assign_spec refexp det, referent',
                        ctx\<lparr>referents :=
                              dict_set (referents ctx) h (RefElem referent')
                                (False, assign_spec refexp det),
                            next_id := n1\<rparr>)))))"

text \<open>
  \<open>generate_ref_exp\<close>: the test \<open>referent in context.referents\<close> hashes the
  referent. The result is the expression, the referent as the call leaves it and the
  context as the call leaves it.
\<close>

definition generate_ref_exp ::
  "py_hash \<Rightarrow> elem \<Rightarrow> Context \<Rightarrow> error + (elem \<times> elem \<times> Context)" where
  "generate_ref_exp H referent ctx =
     (if \<not> is_text referent then Inr (referent, referent, ctx)
      else
        (case hash_obj H referent of
           (Inl e, referent') \<Rightarrow> Inl e
         | (Inr h, referent') \<Rightarrow>
             (if dict_contains (referents ctx) h (RefElem referent')
              then do_repeated_reference H referent' ctx
              else do_initial_reference H referent' ctx)))"


section \<open>Example elements\<close>

text \<open>
  Elements built with the constructors, as a caller builds them; the last argument of a
  constructor is the identity given to the new object.
  \<^item> \<open>word_block\<close> is \<open>Word('block', 'NOUN')\<close>, \<open>word_one\<close> is
    \<open>Word('1')\<close>, \<open>word_hit\<close> is \<open>Word('hit', 'VERB')\<close>, \<open>word_it\<close>
    is \<open>Word('it', 'PRONOUN')\<close>;
  \<^item> \<open>np_block\<close> is \<open>NounPhrase(Word('block', 'NOUN'))\<close>;
  \<^item> \<open>np_block_1\<close> is the same phrase after \<open>add_complement(Word('1'))\<close>,
    the shape \<open>_do_initial_reference\<close> gives to a numbered referent;
  \<^item> \<open>vp_hit_block\<close> is \<open>VerbPhrase(Word('hit', 'VERB'), np_block)\<close>;
  \<^item> \<open>np_block'\<close> and \<open>word_block'\<close> are second objects equal to
    \<open>np_block\<close> and \<open>word_block\<close>;
  \<^item> \<open>np_big_big_block\<close> is \<open>np_block\<close> after two calls of
    \<open>add_pre_modifier(Word('big', 'ADJECTIVE'))\<close>: its pre-modifiers are two equal
    words, \<open>word_big\<close> at index 0 and \<open>word_big'\<close> at index 1;
    \<open>word_big''\<close> is a third equal word.
\<close>

definition word_block :: elem where
  "word_block = fst (Word_new ''block'' ''NOUN'' [] None 0)"

definition word_one :: elem where
  "word_one = fst (Word_new ''1'' ''ANY'' [] None 1)"

definition np_block_1 :: elem where
  "np_block_1 = add_complement (fst (NounPhrase_new word_block NoneV [] 2)) [word_one]"

definition word_hit :: elem where
  "word_hit = fst (Word_new ''hit'' ''VERB'' [] None 5)"

definition np_block :: elem where
  "np_block = fst (NounPhrase_new word_block NoneV [] 6)"

definition vp_hit_block :: elem where
  "vp_hit_block = fst (HeadPhrase_new VerbPhrase_c word_hit [np_block] [] 9)"

definition word_it :: elem where
  "word_it = fst (Word_new ''it'' ''PRONOUN'' [] None 12)"

definition word_block' :: elem where
  "word_block' = fst (Word_new ''block'' ''NOUN'' [] None 13)"

definition np_block' :: elem where
  "np_block' = fst (NounPhrase_new word_block' NoneV [] 14)"

definition word_big :: elem where
  "word_big = fst (Word_new ''big'' ''ADJECTIVE'' [] None 17)"

definition word_big' :: elem where
  "word_big' = fst (Word_new ''big'' ''ADJECTIVE'' [] None 18)"

definition word_small :: elem where
  "word_small = fst (Word_new ''small'' ''ADJECTIVE'' [] None 19)"

definition word_big'' :: elem where
  "word_big'' = fst (Word_new ''big'' ''ADJECTIVE'' [] None 20)"

definition np_big_big_block :: elem where
  "np_big_big_block = add_pre_modifier (add_pre_modifier np_block [word_big']) [word_big]"

definition zero_hash :: py_hash where
  "zero_hash = \<lparr>hash_str = (\<lambda>_. 0), hash_int = (\<lambda>i. i), hash_none = 0,
     hash_tuple = (\<lambda>_. 0), hash_result = (\<lambda>i. i)\<rparr>"

text \<open>
  Referents and contexts for reg.py:
  \<^item> \<open>word_block1\<close> is \<open>Word('block1', 'NOUN')\<close>;
  \<^item> \<open>onto_one_block\<close> knows the type \<open>block\<close> with the single instance
    \<open>block1\<close>, \<open>onto_two_blocks\<close> the same type with the instances
    \<open>block1\<close> and \<open>block2\<close>;
  \<^item> \<open>ctx_one_block\<close> and \<open>ctx_two_blocks\<close> are new contexts with these
    ontologies and an empty registry.
\<close>

definition word_block1 :: elem where
  "word_block1 = fst (Word_new ''block1'' ''NOUN'' [] None 21)"

definition onto_one_block :: ontology where
  "onto_one_block =
     \<lparr>best_entity_type = (\<lambda>s. Inr '':block''),
      entities_of_type = (\<lambda>s. Inr ['':block1''])\<rparr>"

definition onto_two_blocks :: ontology where
  "onto_two_blocks =
     \<lparr>best_entity_type = (\<lambda>s. Inr '':block''),
      entities_of_type = (\<lambda>s. Inr ['':block1'', '':block2''])\<rparr>"

definition ctx_one_block :: Context where
  "ctx_one_block = \<lparr>ontology = Some onto_one_block, referents = [], next_id = 22\<rparr>"

definition ctx_two_blocks :: Context where
  "ctx_two_blocks = \<lparr>ontology = Some onto_two_blocks, referents = [], next_id = 22\<rparr>"

text \<open>
  Clauses for the pronoun case:
  \<^item> \<open>clause_block_hit_block\<close> is \<open>Clause(np_block, VerbPhrase(hit, np_block'))\<close>:
    subject and object are two objects that are equal;
  \<^item> \<open>clause_block_hit_table\<close> is \<open>Clause(np_block, VerbPhrase(hit, np_table))\<close>.
\<close>

definition vp_hit_block' :: elem where
  "vp_hit_block' = fst (HeadPhrase_new VerbPhrase_c word_hit [np_block'] [] 40)"

definition clause_block_hit_block :: elem where
  "clause_block_hit_block = fst (projr (Clause_new np_block vp_hit_block' [] 42))"

definition word_table :: elem where
  "word_table = fst (Word_new ''table'' ''NOUN'' [] None 43)"

definition np_table :: elem where
  "np_table = fst (NounPhrase_new word_table NoneV [] 44)"

definition vp_hit_table :: elem where
  "vp_hit_table = fst (HeadPhrase_new VerbPhrase_c word_hit [np_table] [] 47)"

definition clause_block_hit_table :: elem where
  "clause_block_hit_table = fst (projr (Clause_new np_block vp_hit_table [] 49))"

lemmas ctor_defs = Word_new_def NounPhrase_new_def HeadPhrase_new_def Phrase_new_def
  Element_new_def String_new_def new_base_def set_feature_def dict_update_def features_of_def
  Coordination_new_def

lemmas example_defs = word_block_def word_one_def np_block_1_def word_hit_def np_block_def
  vp_hit_block_def word_it_def word_block'_def np_block'_def word_big_def word_big'_def
  word_small_def np_big_big_block_def word_big''_def

lemmas reg_example_defs = word_block1_def onto_one_block_def onto_two_blocks_def
  ctx_one_block_def ctx_two_blocks_def vp_hit_block'_def clause_block_hit_block_def
  word_table_def np_table_def vp_hit_table_def clause_block_hit_table_def

section \<open>Properties of message specifications\<close>

text \<open>
  C9. For every PredicateMsg and every non-negative integer index \<open>i\<close>,
  \<open>value_for(i)\<close> raises SignatureError when \<open>i\<close> is at least the number of
  stored arguments and returns the \<open>i\<close>-th argument otherwise; in both cases the
  message is left as it was.
\<close>

theorem value_for_index:
  assumes "0 \<le> i"
  shows "value_for m (IntKey i) =
    (if int (length (args m)) \<le> i then Inl SignatureError else Inr (args m ! nat i), m)"
  using assms by (simp add: value_for_def)

theorem value_for_index_witness:
  "value_for \<lparr>name = ''on'', predicate = (), args = [''a'', ''b''], msg_features = [],
      attributes = (\<lambda>_. None)\<rparr> (IntKey 2)
     = (Inl SignatureError, \<lparr>name = ''on'', predicate = (), args = [''a'', ''b''],
          msg_features = [], attributes = (\<lambda>_. None)\<rparr>)
   \<and> value_for \<lparr>name = ''on'', predicate = (), args = [''a'', ''b''], msg_features = [],
      attributes = (\<lambda>_. None)\<rparr> (IntKey 1)
     = (Inr ''b'', \<lparr>name = ''on'', predicate = (), args = [''a'', ''b''],
          msg_features = [], attributes = (\<lambda>_. None)\<rparr>)"
  using value_for_index [of 2 "\<lparr>name = ''on'', predicate = (), args = [''a'', ''b''],
      msg_features = [], attributes = (\<lambda>_. None)\<rparr>"]
    value_for_index [of 1 "\<lparr>name = ''on'', predicate = (), args = [''a'', ''b''],
      msg_features = [], attributes = (\<lambda>_. None)\<rparr>"]
  by simp


section \<open>Properties of the element hierarchy\<close>

text \<open>
  C3 (the code departs from the claim). \<open>NounPhrase.__deepcopy__\<close> builds the copy
  from the head, the specifier and the features only: the modifier and complement lists
  of the copy are empty. For \<open>np_block_1\<close>, a noun phrase with one complement, the
  deep copy has no complement and is not equal to the original, in either direction of
  \<open>==\<close>.
\<close>

theorem deepcopy_NounPhrase_drops_complements:
  "(case deepcopy np_block_1 5 of
      Inl e \<Rightarrow> False
    | Inr (c, n) \<Rightarrow>
        \<not> elem_eq c np_block_1 \<and> \<not> elem_eq np_block_1 c
        \<and> c = Phrase NounPhrase_c
              \<lparr>oid = 7, ident = PInt 0, etype = NOUN_PHRASE,
                 features = [(''cat'', ''NOUN'')], hash = - 1\<rparr>
              (Element \<lparr>oid = 6, ident = PInt 0, etype = ELEMENT, features = [], hash = - 1\<rparr>)
              [] []
              (Word \<lparr>oid = 5, ident = PInt 0, etype = WORD,
                 features = [(''cat'', ''NOUN'')], hash = - 1\<rparr> ''block'' ''NOUN'' ''block'' False)
              [] [])"
  by (simp add: example_defs ctor_defs bind_def copy_id_hash_def Element_eq_def dict_eq_def)

text \<open>
  C6 (the code departs from the claim). The modifier, head and specifier loops of
  \<open>Phrase.constituents\<close> expand every constituent of a child a second time
  (\<open>for x in o.constituents(): yield from x.constituents()\<close>), so a node below a
  phrase that is itself a child of a phrase is yielded more than once. For
  \<open>vp_hit_block\<close> the word \<open>block\<close> is yielded twice.
\<close>

theorem constituents_yields_twice:
  "constituents vp_hit_block =
     ([vp_hit_block, word_hit, np_block, word_block, word_block], None)"
  by (simp add: example_defs ctor_defs gen_concat_def gen_then_def yield_from_each_def)

text \<open>
  C8. Hashing a \<open>Coordination\<close> fails with the assertion error of its
  \<open>__hash__\<close>, whatever its coordinates, conjunction, features and cached hash are
  and whatever Python's own hash functions return; no hash value is ever returned and the
  object is left as it was.
\<close>

theorem hash_Coordination_fails:
  "hash_obj H (Coordination b cs cj pr co po) =
     (Inl AssertionError, Coordination b cs cj pr co po)
   \<and> (\<forall>v. fst (hash_obj H (Coordination b cs cj pr co po)) \<noteq> Inr v)"
  by simp

text \<open>
  C10. Hashing fails for every composite element: with the assertion error of
  \<open>Phrase.__hash__\<close> for a plain phrase and for a verb, prepositional, adjective or
  adverb phrase, and with a type error for a noun phrase and for a clause, whose classes
  have no \<open>__hash__\<close>. An \<open>Element\<close>, a \<open>String\<close> and a \<open>Word\<close> always
  hash; a \<open>Var\<close> hashes when its cache is filled or its value hashes.
\<close>

theorem hash_composite_fails:
  "(c \<noteq> NounPhrase_c \<longrightarrow>
      fst (hash_obj H (Phrase c b sp fr pr h co po)) = Inl AssertionError)
   \<and> fst (hash_obj H (Phrase NounPhrase_c b sp fr pr h co po)) = Inl TypeError
   \<and> fst (hash_obj H (Clause b fr pr su vp co po)) = Inl TypeError
   \<and> fst (hash_obj H (Coordination b cs cj pr co po)) = Inl AssertionError
   \<and> (\<exists>v. fst (hash_obj H (Element b)) = Inr v)
   \<and> (\<exists>v. fst (hash_obj H (String b s)) = Inr v)
   \<and> (\<exists>v. fst (hash_obj H (Word b w p bs i)) = Inr v)
   \<and> ((\<exists>v. fst (hash_obj H (Var b x)) = Inr v)
        \<longleftrightarrow> (hash b \<noteq> - 1 \<or> (\<exists>v. fst (hash_obj H x) = Inr v)))"
  by (auto simp: Element_hash_def Let_def split: prod.splits sum.splits)

theorem hash_composite_fails_witness:
  "fst (hash_obj zero_hash vp_hit_block) = Inl AssertionError
   \<and> fst (hash_obj zero_hash np_block) = Inl TypeError
   \<and> (\<exists>v. fst (hash_obj zero_hash word_block) = Inr v)"
  using hash_composite_fails [of VerbPhrase_c zero_hash
      "\<lparr>oid = 9, ident = PInt 0, etype = VERB_PHRASE, features = [(''cat'', ''VERB'')],
        hash = - 1\<rparr>"
      NoneV "[]" "[]" word_hit "[np_block]" "[]"]
  by (simp add: example_defs ctor_defs zero_hash_def Element_hash_def hash_atom_def)


section \<open>Properties of the replacement\<close>

subsection \<open>The replacement follows the scan order\<close>






























subsection \<open>What is replaced, and in which order\<close>

lemma upt_Suc_shift: "[0..<Suc n] = 0 # map Suc [0..<n]"
  by (simp add: upt_conv_Cons map_Suc_upt del: upt_Suc)


lemma scan_fwd_index:
  "scan_fwd xs =
     concat (map (\<lambda>j. (j, []) # map (Pair j) (scan (xs ! j))) [0..<length xs])"
proof (induction xs)
  case Nil
  show ?case by simp
next
  case (Cons x xs)
  have "map (apfst Suc) (scan_fwd xs) =
      concat (map (\<lambda>j. (j, []) # map (Pair j) (scan ((x # xs) ! j))) (map Suc [0..<length xs]))"
    by (simp add: Cons.IH map_concat comp_def)
  then show ?case
    by (simp add: upt_Suc_shift del: upt_Suc)
qed














section \<open>Properties of the referring expressions\<close>

subsection \<open>Pronoun case\<close>






subsection \<open>Initial and repeated reference\<close>

lemma dict_get_set_same:
  "key_eq k k \<Longrightarrow> dict_get (dict_set d h k v) h k = Some v"
  by (induction d) (simp_all add: dict_get_def entry_matches_def)

lemma dict_contains_set_str:
  "dict_contains (dict_set d h' (RefStr s) v) h (RefElem e) = dict_contains d h (RefElem e)"
  by (induction d) (simp_all add: dict_contains_def entry_matches_def key_eq_def)

lemma hash_obj_text:
  "is_text e \<Longrightarrow> hash_obj H e = (r, e') \<Longrightarrow>
     string_prop e' = string_prop e \<and> is_text e' \<and> (\<exists>h. r = Inr h)"
  by (cases e) (auto simp: is_text_def Element_hash_def Let_def split: if_splits prod.splits)

lemma hash_obj_cached:
  "is_text e \<Longrightarrow> hash_obj H e = (r, e') \<Longrightarrow> hash_obj H e' = (r, e')"
  by (cases e) (auto simp: is_text_def Element_hash_def Let_def split: if_splits prod.splits)

lemma single_distractor: "(length ds = Suc 0 \<and> hd ds = s) = (ds = [s])"
  by (cases ds) auto

lemma try_initial_reference_registry:
  assumes "string_prop target = Inr (Some s)" and "s \<noteq> []" and "\<not> is_upper (hd s)"
    and "ontology ctx = Some onto"
    and "best_entity_type onto (CHR '':'' # s) = Inr t"
    and "entities_of_type onto (CHR '':'' # after_last_colon t) = Inr ents"
  shows "\<exists>np v n. try_initial_reference H target ctx =
     Inr (np, ctx\<lparr>referents := dict_set (referents ctx) (hash_str H s) (RefStr s) v,
                   next_id := n\<rparr>)"
  using assms
  by (auto simp: try_initial_reference_def bind_def Let_def ctor_defs copy_id_hash_def
      split: option.splits)

lemmas reg_eval_defs = generate_ref_exp_def do_initial_reference_def try_initial_reference_def
  fallback_reference_def do_repeated_reference_def
  bind_def Let_def zero_hash_def Element_hash_def hash_atom_def is_text_def dict_contains_def
  dict_get_def entry_matches_def key_eq_def is_upper_def after_last_colon_def
  number_suffix_def is_digit_def spec_of_def copy_id_hash_def

text \<open>
  C1 (as the code has it). Let the referent be a \<open>String\<close> or a \<open>Word\<close> whose
  text \<open>s\<close> is not empty and does not start with an upper-case letter, in a context
  whose ontology answers both queries and whose registry has no entry for the referent.
  When the set of the instance names of its type is empty or holds only \<open>s\<close>,
  \<open>generate_ref_exp\<close> returns a noun phrase whose specifier is the determiner
  \<open>the\<close>, and the registry then holds, under the key \<open>s\<close>, the pair of
  \<open>True\<close> and a copy that equals the expression without its determiner. In every
  other case, so whenever the type has two or more instances, the expression has no
  determiner (its specifier is the empty element of the constructor) and the registry
  holds, under the key \<open>s\<close>, the pair of \<open>False\<close> and the expression.
\<close>

theorem initial_reference_determiner:
  assumes "is_text referent"
    and "string_prop referent = Inr (Some s)" and "s \<noteq> []" and "\<not> is_upper (hd s)"
    and "ontology ctx = Some onto"
    and "best_entity_type onto (CHR '':'' # s) = Inr t"
    and "entities_of_type onto (CHR '':'' # after_last_colon t) = Inr ents"
    and "hash_obj H referent = (Inr h, referent')"
    and "\<not> dict_contains (referents ctx) h (RefElem referent')"
  shows "\<exists>np ctx'. generate_ref_exp H referent ctx = Inr (np, referent', ctx')
     \<and> (if remdups (map after_last_colon ents) = [] \<or> remdups (map after_last_colon ents) = [s]
        then (\<exists>bd. spec_of np = Word bd ''the'' ''DETERMINER'' ''the'' False)
           \<and> (\<exists>cached be.
                 dict_get (referents ctx') (hash_str H s) (RefStr s) = Some (True, cached)
                 \<and> spec_of cached = Element be
                 \<and> elem_eq cached (assign_spec np (Element be)))
        else (\<exists>be. spec_of np = Element be)
           \<and> dict_get (referents ctx') (hash_str H s) (RefStr s) = Some (False, np))"
proof -
  have sp: "string_prop referent' = Inr (Some s)" and tx: "is_text referent'"
    using hash_obj_text[OF assms(1) assms(8)] assms(2) by simp_all
  show ?thesis
  proof (cases "remdups (map after_last_colon ents) = []
      \<or> remdups (map after_last_colon ents) = [s]")
    case True
    then show ?thesis
      using assms sp tx
      by (auto simp: generate_ref_exp_def do_initial_reference_def try_initial_reference_def
          bind_def Let_def ctor_defs copy_id_hash_def dict_get_set_same key_eq_def spec_of_def
          Element_eq_def dict_eq_def)
  next
    case False
    then show ?thesis
      using assms sp tx
      by (auto simp: generate_ref_exp_def do_initial_reference_def try_initial_reference_def
          bind_def Let_def ctor_defs dict_get_set_same key_eq_def spec_of_def
          single_distractor split: option.splits)
  qed
qed

theorem initial_reference_determiner_witness:
  "(\<exists>np ctx'. generate_ref_exp zero_hash word_block1 ctx_one_block =
        Inr (np, snd (hash_obj zero_hash word_block1), ctx')
      \<and> (\<exists>bd. spec_of np = Word bd ''the'' ''DETERMINER'' ''the'' False)
      \<and> (\<exists>cached be. dict_get (referents ctx') 0 (RefStr ''block1'') = Some (True, cached)
             \<and> spec_of cached = Element be
             \<and> elem_eq cached (assign_spec np (Element be))))
   \<and> (\<exists>np ctx'. generate_ref_exp zero_hash word_block1 ctx_two_blocks =
        Inr (np, snd (hash_obj zero_hash word_block1), ctx')
      \<and> (\<exists>be. spec_of np = Element be)
      \<and> dict_get (referents ctx') 0 (RefStr ''block1'') = Some (False, np))"
  using initial_reference_determiner [of word_block1 "''block1''" ctx_one_block onto_one_block
      "'':block''" "['':block1'']" zero_hash 0 "snd (hash_obj zero_hash word_block1)"]
    initial_reference_determiner [of word_block1 "''block1''" ctx_two_blocks onto_two_blocks
      "'':block''" "['':block1'', '':block2'']" zero_hash 0
      "snd (hash_obj zero_hash word_block1)"]
  by (simp add: reg_example_defs ctor_defs reg_eval_defs)

text \<open>
  C1 as stated fails for a type with two instances: the first expression for
  \<open>block1\<close>, where the blocks are \<open>block1\<close> and \<open>block2\<close>, is the noun
  phrase \<open>block 1\<close>, marked as a proper name, with the number as complement and with
  the empty element as specifier: it has no determiner, definite or indefinite.
\<close>

theorem initial_reference_no_determiner_counterexample:
  "\<not> isl (generate_ref_exp zero_hash word_block1 ctx_two_blocks)
   \<and> fst (projr (generate_ref_exp zero_hash word_block1 ctx_two_blocks)) =
       Phrase NounPhrase_c
         \<lparr>oid = 23, ident = PInt 0, etype = NOUN_PHRASE,
            features = [(''cat'', ''NOUN''), (''PROPER'', ''true'')], hash = - 1\<rparr>
         (Element \<lparr>oid = 25, ident = PInt 0, etype = ELEMENT, features = [], hash = - 1\<rparr>)
         [] []
         (Word \<lparr>oid = 22, ident = PInt 0, etype = WORD,
            features = [(''cat'', ''NOUN'')], hash = - 1\<rparr> ''block'' ''NOUN'' ''block'' False)
         [Word \<lparr>oid = 26, ident = PInt 0, etype = WORD,
            features = [(''cat'', ''ANY'')], hash = - 1\<rparr> ''1'' ''ANY'' ''1'' False]
         []"
  by (simp add: reg_example_defs ctor_defs reg_eval_defs)

text \<open>
  C2 (the code departs from the claim). The \<open>try\<close> block of
  \<open>_do_initial_reference\<close> caches the expression under the text of the referent, a
  string, while \<open>generate_ref_exp\<close> and \<open>_do_repeated_reference\<close> look the
  referent itself up, an element; the \<open>except\<close> branches cache under the element.
  So after an initial reference that consulted the ontology, the registry has no entry
  that the referent finds, and the next call of \<open>generate_ref_exp\<close> for the same
  referent is an initial reference again, whatever the hash functions are.
\<close>

theorem second_reference_is_initial:
  assumes "is_text referent"
    and "string_prop referent = Inr (Some s)" and "s \<noteq> []" and "\<not> is_upper (hd s)"
    and "ontology ctx = Some onto"
    and "best_entity_type onto (CHR '':'' # s) = Inr t"
    and "entities_of_type onto (CHR '':'' # after_last_colon t) = Inr ents"
    and "hash_obj H referent = (Inr h, referent')"
    and "\<not> dict_contains (referents ctx) h (RefElem referent')"
  shows "\<exists>np ctx'. generate_ref_exp H referent ctx = Inr (np, referent', ctx')
     \<and> \<not> dict_contains (referents ctx') h (RefElem referent')
     \<and> generate_ref_exp H referent' ctx' = do_initial_reference H referent' ctx'"
proof -
  have sp: "string_prop referent' = Inr (Some s)" and tx: "is_text referent'"
    using hash_obj_text[OF assms(1) assms(8)] assms(2) by simp_all
  have h2: "hash_obj H referent' = (Inr h, referent')"
    using hash_obj_cached[OF assms(1) assms(8)] .
  obtain np v n where tr:
    "try_initial_reference H referent' ctx =
       Inr (np, ctx\<lparr>referents := dict_set (referents ctx) (hash_str H s) (RefStr s) v,
                     next_id := n\<rparr>)"
    using try_initial_reference_registry[OF sp assms(3-7)] by blast
  show ?thesis
    using assms(1,8,9) tx h2 tr
    by (simp add: generate_ref_exp_def do_initial_reference_def dict_contains_set_str)
qed

theorem second_reference_is_initial_witness:
  "(\<exists>np ctx'. generate_ref_exp zero_hash word_block1 ctx_one_block =
        Inr (np, snd (hash_obj zero_hash word_block1), ctx')
     \<and> \<not> dict_contains (referents ctx') 0 (RefElem (snd (hash_obj zero_hash word_block1)))
     \<and> generate_ref_exp zero_hash (snd (hash_obj zero_hash word_block1)) ctx' =
         do_initial_reference zero_hash (snd (hash_obj zero_hash word_block1)) ctx')"
  using second_reference_is_initial [of word_block1 "''block1''" ctx_one_block onto_one_block
      "'':block''" "['':block1'']" zero_hash 0 "snd (hash_obj zero_hash word_block1)"]
  by (simp add: reg_example_defs ctor_defs reg_eval_defs)

end
